theory Spec2Isabelle
  imports Main "HOL-Library.Sublist"
begin

section \<open>JavaScript values and errors\<close>

text \<open>
  The client (class \<open>TimeEditAPI\<close>) is TypeScript compiled to JavaScript and runs in strict
  mode. Every exception the modelled code can raise is a \<open>TypeError\<close>: reading a property
  of \<open>undefined\<close> or \<open>null\<close>, and calling something that is not a function.
\<close>

datatype error = TypeError

text \<open>
  Values of TypeScript's \<open>any\<close> as \<open>JSON.parse\<close> produces them, together with
  \<open>undefined\<close>, which an out-of-range index yields. Strings are sequences of bytes
  (UTF-8). The code never reads the digits of a number, only whether it is zero, so a
  number is carried as an integer.
\<close>

datatype jsval =
    JUndefined
  | JNull
  | JBool bool
  | JNum int
  | JStr string
  | JArr "jsval list"
  | JObj "(string \<times> jsval) list"

text \<open>\<open>xs[i]\<close> on an array: \<open>undefined\<close> out of range.\<close>

definition js_index :: "jsval list \<Rightarrow> nat \<Rightarrow> jsval" where
  "js_index xs i = (if i < length xs then xs ! i else JUndefined)"

subsection \<open>String.prototype.split and String.prototype.replace\<close>

text \<open>
  \<open>s.split(sep)\<close> with a string separator: the pieces of \<open>s\<close> between the
  occurrences of \<open>sep\<close>, found from left to right without overlap. \<open>cur\<close> is the piece
  being read. With the empty separator the result is the list of the characters.
\<close>

function split_from :: "string \<Rightarrow> string \<Rightarrow> string \<Rightarrow> string list" where
  "split_from sep cur s =
     (if s = [] then [cur]
      else if sep \<noteq> [] \<and> take (length sep) s = sep
        then cur # split_from sep [] (drop (length sep) s)
      else split_from sep (cur @ [hd s]) (tl s))"
  by pat_completeness auto
termination
  by (relation "measure (\<lambda>(sep, cur, s). length s)") auto

definition js_split :: "string \<Rightarrow> string \<Rightarrow> string list" where
  "js_split s sep = (if sep = [] then map (\<lambda>c. [c]) s else split_from sep [] s)"

text \<open>
  \<open>s.replace(pat, rep)\<close> with a string pattern replaces the first occurrence of \<open>pat\<close>
  only, and leaves \<open>s\<close> as it is when \<open>pat\<close> does not occur.
\<close>

fun js_replace :: "string \<Rightarrow> string \<Rightarrow> string \<Rightarrow> string" where
  "js_replace [] pat rep = (if pat = [] then rep else [])"
| "js_replace (c # cs) pat rep =
     (if take (length pat) (c # cs) = pat then rep @ drop (length pat) (c # cs)
      else c # js_replace cs pat rep)"

text \<open>\<open>s.includes(pat)\<close>: \<open>pat\<close> occurs in \<open>s\<close>.\<close>

fun js_includes :: "string \<Rightarrow> string \<Rightarrow> bool" where
  "js_includes [] pat = (pat = [])"
| "js_includes (c # cs) pat = (take (length pat) (c # cs) = pat \<or> js_includes cs pat)"

text \<open>
  \<open>v.split(", ")\<close> on a value of type \<open>any\<close>: only a string has the method. On
  \<open>undefined\<close> and \<open>null\<close> the property read raises, on every other JSON value
  \<open>split\<close> is not a function.
\<close>

fun call_split :: "jsval \<Rightarrow> string \<Rightarrow> error + string list" where
  "call_split (JStr s) sep = Inr (js_split s sep)"
| "call_split v sep = Inl TypeError"

subsection \<open>Loose equality with the empty string\<close>

text \<open>
  \<open>ToString(v) === ''\<close>, or the \<open>TypeError\<close> that \<open>ToString\<close> raises. An array is
  joined with commas, \<open>undefined\<close> and \<open>null\<close> elements giving the empty piece; an object
  parsed from JSON prints as \<open>[object Object]\<close> unless an own property \<open>toString\<close>
  (never callable in JSON) hides the inherited method, in which case there is no
  primitive value to convert to.
\<close>

fun tostring_is_empty :: "jsval \<Rightarrow> error + bool"
  and join_pieces_empty :: "jsval list \<Rightarrow> error + bool list" where
  "tostring_is_empty JUndefined = Inr False"
| "tostring_is_empty JNull = Inr False"
| "tostring_is_empty (JBool b) = Inr False"
| "tostring_is_empty (JNum n) = Inr False"
| "tostring_is_empty (JStr s) = Inr (s = [])"
| "tostring_is_empty (JArr xs) =
     (case join_pieces_empty xs of
        Inl e \<Rightarrow> Inl e
      | Inr ps \<Rightarrow> Inr (ps = [] \<or> ps = [True]))"
| "tostring_is_empty (JObj kvs) =
     (if ''toString'' \<in> set (map fst kvs) then Inl TypeError else Inr False)"
| "join_pieces_empty [] = Inr []"
| "join_pieces_empty (x # xs) =
     (case (if x = JUndefined \<or> x = JNull then Inr True else tostring_is_empty x) of
        Inl e \<Rightarrow> Inl e
      | Inr p \<Rightarrow> (case join_pieces_empty xs of Inl e \<Rightarrow> Inl e | Inr ps \<Rightarrow> Inr (p # ps)))"

text \<open>
  \<open>v == ''\<close> (loose equality). \<open>undefined\<close> and \<open>null\<close> equal only each other; a
  boolean and a number are compared as numbers with \<open>ToNumber('') = 0\<close>; an array or
  object is first converted to a primitive, which for JSON data is its string.
\<close>

fun loose_eq_empty :: "jsval \<Rightarrow> error + bool" where
  "loose_eq_empty JUndefined = Inr False"
| "loose_eq_empty JNull = Inr False"
| "loose_eq_empty (JBool b) = Inr (\<not> b)"
| "loose_eq_empty (JNum n) = Inr (n = 0)"
| "loose_eq_empty (JStr s) = Inr (s = [])"
| "loose_eq_empty (JArr xs) = tostring_is_empty (JArr xs)"
| "loose_eq_empty (JObj kvs) = tostring_is_empty (JObj kvs)"

subsection \<open>Array.prototype.map and Array.prototype.filter\<close>

text \<open>
  The callback runs on the elements in order; the first exception it raises ends the
  call, and no array is returned.
\<close>

fun js_map :: "('a \<Rightarrow> error + 'b) \<Rightarrow> 'a list \<Rightarrow> error + 'b list" where
  "js_map f [] = Inr []"
| "js_map f (x # xs) =
     (case f x of
        Inl e \<Rightarrow> Inl e
      | Inr y \<Rightarrow> (case js_map f xs of Inl e \<Rightarrow> Inl e | Inr ys \<Rightarrow> Inr (y # ys)))"

fun js_filter :: "('a \<Rightarrow> error + bool) \<Rightarrow> 'a list \<Rightarrow> error + 'a list" where
  "js_filter p [] = Inr []"
| "js_filter p (x # xs) =
     (case p x of
        Inl e \<Rightarrow> Inl e
      | Inr b \<Rightarrow>
          (case js_filter p xs of
             Inl e \<Rightarrow> Inl e
           | Inr ys \<Rightarrow> Inr (if b then x # ys else ys)))"

section \<open>The date library\<close>

text \<open>
  A luxon \<open>DateTime\<close> is either invalid or a point in time with its calendar fields in
  the system zone: \<open>year\<close>, \<open>month\<close> (1 to 12) and \<open>millis\<close>, the epoch milliseconds
  that \<open>valueOf()\<close> returns. The numeric getters of an invalid value return \<open>NaN\<close>,
  here \<open>None\<close>.
\<close>

datatype DateTime = Invalid | Valid (year: int) (month: int) (millis: int)

fun get_month :: "DateTime \<Rightarrow> int option" where
  "get_month Invalid = None"
| "get_month (Valid y m t) = Some m"

fun valueOf :: "DateTime \<Rightarrow> int option" where
  "valueOf Invalid = None"
| "valueOf (Valid y m t) = Some t"

text \<open>\<open>a < b\<close> and \<open>a <= b\<close> on numbers: false as soon as one side is \<open>NaN\<close>.\<close>

fun num_less :: "int option \<Rightarrow> int option \<Rightarrow> bool" where
  "num_less (Some a) (Some b) = (a < b)"
| "num_less a b = False"

fun num_less_eq :: "int option \<Rightarrow> int option \<Rightarrow> bool" where
  "num_less_eq (Some a) (Some b) = (a \<le> b)"
| "num_less_eq a b = False"

text \<open>\<open>xs.includes(v)\<close> on an array of integers: \<open>NaN\<close> is not among them.\<close>

fun includes_num :: "int list \<Rightarrow> int option \<Rightarrow> bool" where
  "includes_num xs None = False"
| "includes_num xs (Some v) = (v \<in> set xs)"

text \<open>\<open>a < b\<close> on two \<open>DateTime\<close> objects compares their \<open>valueOf()\<close>.\<close>

definition dt_less :: "DateTime \<Rightarrow> DateTime \<Rightarrow> bool" where
  "dt_less a b = num_less (valueOf a) (valueOf b)"

text \<open>
  \<open>a.hasSame(b, 'year')\<close>: both are valid and \<open>b\<close> lies in the calendar year of \<open>a\<close>.
  Every \<open>DateTime\<close> of this program is in the system zone.
\<close>

fun hasSame_year :: "DateTime \<Rightarrow> DateTime \<Rightarrow> bool" where
  "hasSame_year (Valid y m t) (Valid y' m' t') = (y = y')"
| "hasSame_year a b = False"

text \<open>
  The functions of the library that the client calls. Their results are inputs of the
  model: \<open>fromISO\<close> and \<open>fromSQL\<close> are any parsers (\<open>fromSQL\<close> may be handed \<open>null\<close>),
  and \<open>now k\<close> is what the \<open>k\<close>-th call of \<open>DateTime.now()\<close> within one call of
  \<open>getCourseEvents\<close> returns.
\<close>

record luxon =
  fromISO :: "string \<Rightarrow> DateTime"
  fromSQL :: "string option \<Rightarrow> DateTime"
  now :: "nat \<Rightarrow> DateTime"

section \<open>The data of the client\<close>

text \<open>
  The object that the mapping in \<open>getCourseEvents\<close> builds for one reservation.
  \<open>type\<close> is \<open>columns[5]\<close> as it came, a value of type \<open>any\<close>.
\<close>

record Event =
  startDate :: DateTime
  endDate :: DateTime
  lecturers :: "string list"
  location :: "string list"
  type :: jsval

text \<open>
  One element of \<open>jsonData.reservations\<close>, with the type the mapping declares for it:
  four strings and \<open>columns: any[]\<close>.
\<close>

record RawReservation =
  startdate :: string
  starttime :: string
  enddate :: string
  endtime :: string
  columns :: "jsval list"

text \<open>
  The parsed body of the response. \<open>reservations\<close> is \<open>None\<close> when the body has no
  array under that name (the property is missing, or holds anything else).
\<close>

record jsonData =
  reservations :: "RawReservation list option"

text \<open>The fields of a \<open>TimeEditAPI\<close> instance; \<open>None\<close> is \<open>null\<close>.\<close>

record TimeEditAPI =
  baseUrl :: "string option"
  filterEmpty :: bool
  filterStartDate :: "string option"
  filterEndDate :: "string option"
  filterToSemester :: bool
  useKTHPlaces :: bool

text \<open>
  The object handed to the constructor; \<open>None\<close> is a property that is left out (or
  \<open>undefined\<close>), for which the destructuring pattern supplies its default.
\<close>

record Options =
  arg_baseUrl :: "string option"
  arg_filterEmpty :: "bool option"
  arg_filterToSemester :: "bool option"
  arg_startDate :: "string option"
  arg_endDate :: "string option"
  arg_useKTHPlaces :: "bool option"

definition default_to :: "'a \<Rightarrow> 'a option \<Rightarrow> 'a" where
  "default_to d v = (case v of None \<Rightarrow> d | Some x \<Rightarrow> x)"

definition constructor :: "Options \<Rightarrow> TimeEditAPI" where
  "constructor opts =
     \<lparr> baseUrl = default_to None (map_option Some (arg_baseUrl opts)),
       filterEmpty = default_to False (arg_filterEmpty opts),
       filterStartDate = default_to None (map_option Some (arg_startDate opts)),
       filterEndDate = default_to None (map_option Some (arg_endDate opts)),
       filterToSemester = default_to True (arg_filterToSemester opts),
       useKTHPlaces = default_to False (arg_useKTHPlaces opts) \<rparr>"

text \<open>\<open>if (s)\<close> on a string or \<open>null\<close>: \<open>null\<close> and the empty string are falsy.\<close>

fun truthy :: "string option \<Rightarrow> bool" where
  "truthy None = False"
| "truthy (Some s) = (s \<noteq> [])"

section \<open>The methods of the client\<close>

text \<open>The section sign, U+00A7, in UTF-8.\<close>

definition section_sign :: string where
  "section_sign = [CHR 0xC2, CHR 0xA7]"

text \<open>
  \<open>getKTHLocationURL\<close>: the \<open>forEach\<close> loop pushes one URL per location onto \<open>urls\<close>.
\<close>

definition location_url :: "string \<Rightarrow> string" where
  "location_url loc =
     (let locString = js_replace loc section_sign ''''
      in ''https://www.kth.se/search?q='' @ locString
           @ ''&entityFilter=kth-place&filterLabel=Facilities&lang=en'')"

fun push_urls :: "string list \<Rightarrow> string list \<Rightarrow> string list" where
  "push_urls urls [] = urls"
| "push_urls urls (loc # locs) = push_urls (urls @ [location_url loc]) locs"

definition getKTHLocationURL :: "string list \<Rightarrow> string list" where
  "getKTHLocationURL locations = push_urls [] locations"

text \<open>\<open>filterEmptyEvents\<close>; it does not read \<open>this\<close>.\<close>

definition filterEmptyEvents :: "Event \<Rightarrow> error + bool" where
  "filterEmptyEvents event =
     (if length (lecturers event) = 0 then Inr False
      else if length (location event) = 0 then Inr False
      else (case loose_eq_empty (type event) of
              Inl e \<Rightarrow> Inl e
            | Inr b \<Rightarrow> if b then Inr False else Inr True))"

text \<open>
  \<open>eventInCurrentKTHPeriod\<close>; it does not read \<open>this\<close>. \<open>dt\<close> is what
  \<open>DateTime.now()\<close> returned.
\<close>

definition eventInCurrentKTHPeriod :: "DateTime \<Rightarrow> Event \<Rightarrow> bool" where
  "eventInCurrentKTHPeriod dt event =
     (let currentSemester =
        (if num_less (Some 1) (get_month dt) \<and> num_less (get_month dt) (Some 7)
           then [1, 2, 3, 4, 5, 6]
         else if num_less (Some 7) (get_month dt) \<and> num_less_eq (get_month dt) (Some 12)
           then [8, 9, 10, 11, 12]
         else [])
      in includes_num currentSemester (get_month (startDate event))
           \<and> hasSame_year dt (startDate event))"

text \<open>
  \<open>eventBeforeDate\<close> and \<open>eventAfterDate\<close> read \<open>this\<close>, which is a parameter here:
  \<open>None\<close> is \<open>undefined\<close>, and reading a property of it raises.
\<close>

fun eventBeforeDate :: "luxon \<Rightarrow> TimeEditAPI option \<Rightarrow> Event \<Rightarrow> error + bool" where
  "eventBeforeDate lx None event = Inl TypeError"
| "eventBeforeDate lx (Some this) event =
     Inr (dt_less (endDate event) (fromSQL lx (filterStartDate this)))"

fun eventAfterDate :: "luxon \<Rightarrow> TimeEditAPI option \<Rightarrow> Event \<Rightarrow> error + bool" where
  "eventAfterDate lx None event = Inl TypeError"
| "eventAfterDate lx (Some this) event =
     Inr (dt_less (startDate event) (fromSQL lx (filterEndDate this)))"

text \<open>
  The arrow function that \<open>getCourseEvents\<close> maps over the reservations. An arrow
  function keeps the \<open>this\<close> of the method around it.
\<close>

definition map_reservation :: "luxon \<Rightarrow> TimeEditAPI \<Rightarrow> RawReservation \<Rightarrow> error + Event" where
  "map_reservation lx this event =
     (let starts = fromISO lx (startdate event @ ''T'' @ starttime event);
          ends = fromISO lx (enddate event @ ''T'' @ endtime event)
      in case call_split (js_index (columns event) 3) '', '' of
           Inl e \<Rightarrow> Inl e
         | Inr lec \<Rightarrow>
             (case call_split (js_index (columns event) 4) '', '' of
                Inl e \<Rightarrow> Inl e
              | Inr loc \<Rightarrow>
                  Inr \<lparr> startDate = starts,
                        endDate = ends,
                        lecturers = lec,
                        location = (if useKTHPlaces this then getKTHLocationURL loc else loc),
                        type = js_index (columns event) 5 \<rparr>))"

text \<open>
  \<open>courseEvents.filter(this.eventInCurrentKTHPeriod)\<close>: the predicate reads the clock
  once for each element; \<open>k\<close> counts the readings so far.
\<close>

fun filter_semester :: "luxon \<Rightarrow> nat \<Rightarrow> Event list \<Rightarrow> Event list" where
  "filter_semester lx k [] = []"
| "filter_semester lx k (e # es) =
     (if eventInCurrentKTHPeriod (now lx k) e
      then e # filter_semester lx (Suc k) es
      else filter_semester lx (Suc k) es)"

text \<open>
  \<open>getCourseEvents\<close> from the parsed body on (the request and the logging of a failed
  status are outside the model). The three predicates are handed to \<open>filter\<close> as bare
  function values, so \<open>filter\<close> calls them with \<open>this\<close> undefined.
\<close>

definition getCourseEvents :: "luxon \<Rightarrow> TimeEditAPI \<Rightarrow> jsonData \<Rightarrow> error + Event list" where
  "getCourseEvents lx this body =
     (case reservations body of
        None \<Rightarrow> Inl TypeError
      | Some rows \<Rightarrow>
          (case js_map (map_reservation lx this) rows of
             Inl e \<Rightarrow> Inl e
           | Inr mapped \<Rightarrow>
               (let inSemester =
                      (if filterToSemester this then filter_semester lx 0 mapped else mapped)
                in case (if filterEmpty this then js_filter filterEmptyEvents inSemester
                         else Inr inSemester) of
                     Inl e \<Rightarrow> Inl e
                   | Inr nonEmpty \<Rightarrow>
                       (if truthy (filterStartDate this)
                        then js_filter (eventBeforeDate lx None) nonEmpty
                        else Inr nonEmpty))))"

section \<open>A reference instance of the date library\<close>

text \<open>
  The theorems below hold for every parser and every clock. The examples need one
  instance: the system zone is UTC, \<open>fromISO\<close> reads \<open>YYYY-MM-DDTHH:MM\<close> (the form the
  feed's date and time strings concatenate to), \<open>fromSQL\<close> reads \<open>YYYY-MM-DD\<close> with an
  optional \<open>HH:MM\<close> after a space, anything else is invalid, and the clock stands still
  at a given instant.
\<close>

definition digit_val :: "char \<Rightarrow> int option" where
  "digit_val c =
     (if 48 \<le> (of_char c :: nat) \<and> (of_char c :: nat) \<le> 57
      then Some (int (of_char c) - 48) else None)"

fun digits_val :: "int \<Rightarrow> string \<Rightarrow> int option" where
  "digits_val acc [] = Some acc"
| "digits_val acc (c # cs) =
     (case digit_val c of None \<Rightarrow> None | Some d \<Rightarrow> digits_val (10 * acc + d) cs)"

definition days_in_month :: "int \<Rightarrow> int \<Rightarrow> int" where
  "days_in_month y m =
     (if m = 2 then (if y mod 4 = 0 \<and> (y mod 100 \<noteq> 0 \<or> y mod 400 = 0) then 29 else 28)
      else if m \<in> {4, 6, 9, 11} then 30 else 31)"

text \<open>Days from 1970-01-01 to a date of the Gregorian calendar.\<close>

definition days_from_civil :: "int \<Rightarrow> int \<Rightarrow> int \<Rightarrow> int" where
  "days_from_civil y m d =
     (let y' = (if m \<le> 2 then y - 1 else y);
          era = y' div 400;
          yoe = y' - era * 400;
          doy = (153 * (if 2 < m then m - 3 else m + 9) + 2) div 5 + d - 1;
          doe = yoe * 365 + yoe div 4 - yoe div 100 + doy
      in era * 146097 + doe - 719468)"

definition utc_date :: "string \<Rightarrow> (int \<times> int \<times> int) option" where
  "utc_date s =
     (if length s = 10 \<and> s ! 4 = CHR ''-'' \<and> s ! 7 = CHR ''-'' then
        (case (digits_val 0 (take 4 s), digits_val 0 (take 2 (drop 5 s)),
               digits_val 0 (drop 8 s)) of
           (Some y, Some m, Some d) \<Rightarrow>
             if 1 \<le> m \<and> m \<le> 12 \<and> 1 \<le> d \<and> d \<le> days_in_month y m
             then Some (y, m, d) else None
         | _ \<Rightarrow> None)
      else None)"

definition utc_time :: "string \<Rightarrow> int option" where
  "utc_time s =
     (if length s = 5 \<and> s ! 2 = CHR '':'' then
        (case (digits_val 0 (take 2 s), digits_val 0 (drop 3 s)) of
           (Some h, Some mi) \<Rightarrow>
             if h \<le> 23 \<and> mi \<le> 59 then Some ((h * 60 + mi) * 60000) else None
         | _ \<Rightarrow> None)
      else None)"

definition utc_datetime :: "char \<Rightarrow> string \<Rightarrow> DateTime" where
  "utc_datetime sep s =
     (if length s = 16 \<and> s ! 10 = sep then
        (case (utc_date (take 10 s), utc_time (drop 11 s)) of
           (Some (y, m, d), Some t) \<Rightarrow> Valid y m (days_from_civil y m d * 86400000 + t)
         | _ \<Rightarrow> Invalid)
      else Invalid)"

fun utc_fromSQL :: "string option \<Rightarrow> DateTime" where
  "utc_fromSQL None = Invalid"
| "utc_fromSQL (Some s) =
     (if length s = 10 then utc_datetime (CHR '' '') (s @ '' 00:00'')
      else utc_datetime (CHR '' '') s)"

definition utc_luxon :: "DateTime \<Rightarrow> luxon" where
  "utc_luxon t = \<lparr> fromISO = utc_datetime (CHR ''T''), fromSQL = utc_fromSQL, now = (\<lambda>k. t) \<rparr>"

section \<open>Example data\<close>

text \<open>
  The client of the demo driver:
  \<open>new TimeEditAPI({ baseUrl: baseUrl, filterEmpty: true, useKTHPlaces: false })\<close>.
\<close>

definition demo_client :: TimeEditAPI where
  "demo_client =
     constructor \<lparr>arg_baseUrl = Some ''https://cloud.timeedit.net/kth/web/public01/'',
       arg_filterEmpty = Some True, arg_filterToSemester = None, arg_startDate = None,
       arg_endDate = None, arg_useKTHPlaces = Some False\<rparr>"

text \<open>
  A reservation of the feed on a given day, from 10:15 to 12:00, with the given
  \<open>columns\<close>; a complete list of columns, the same without its last position (the
  type), and one that stops before the lecturers.
\<close>

definition reservation_on :: "string \<Rightarrow> jsval list \<Rightarrow> RawReservation" where
  "reservation_on day cols =
     \<lparr>startdate = day, starttime = ''10:15'', enddate = day, endtime = ''12:00'',
      columns = cols\<rparr>"

definition lecture_columns :: "jsval list" where
  "lecture_columns =
     [JStr ''DD2482'', JStr '''', JStr '''', JStr ''A. Teacher'', JStr ''E1'', JStr ''Lecture'']"

definition untyped_columns :: "jsval list" where
  "untyped_columns = [JStr ''DD2482'', JStr '''', JStr '''', JStr ''A. Teacher'', JStr ''E1'']"

definition short_columns :: "jsval list" where
  "short_columns = [JStr ''DD2482'', JStr '''', JStr '''']"

text \<open>The reference library with the clock in March 2024, and in July 2024.\<close>

definition in_march :: luxon where
  "in_march = utc_luxon (Valid 2024 3 1709500000000)"

definition in_july :: luxon where
  "in_july = utc_luxon (Valid 2024 7 1720000000000)"

section \<open>Facts about the JavaScript primitives\<close>

declare split_from.simps [simp del]

lemma error_is_TypeError: "(e :: error) = TypeError"
  by (cases e) simp

lemma split_from_nonempty: "split_from sep cur s \<noteq> []"
  by (induction sep cur s rule: split_from.induct) (subst split_from.simps, simp)

lemma js_split_nonempty: "js_split s '', '' \<noteq> []"
  by (simp add: js_split_def split_from_nonempty)

lemma js_split_empty_string: "js_split '''' '', '' = ['''']"
  by (simp add: js_split_def split_from.simps)

lemma js_replace_absent: "\<not> js_includes s pat \<Longrightarrow> js_replace s pat rep = s"
  by (induction s) auto

lemma js_replace_section_first:
  "\<not> js_includes a section_sign \<Longrightarrow>
     js_replace (a @ section_sign @ b) section_sign rep = a @ rep @ b"
proof (induction a)
  case Nil
  then show ?case by (simp add: section_sign_def)
next
  case (Cons c a)
  then show ?case
    by (cases a) (auto simp: section_sign_def)
qed

lemma includes_num_Nil: "includes_num [] v = False"
  by (cases v) simp_all

lemma js_map_length: "js_map f xs = Inr ys \<Longrightarrow> length ys = length xs"
  by (induction xs arbitrary: ys) (auto split: sum.splits)

lemma js_map_fails: "x \<in> set xs \<Longrightarrow> f x = Inl e \<Longrightarrow> js_map f xs = Inl TypeError"
proof (induction xs)
  case Nil
  then show ?case by simp
next
  case (Cons y ys)
  then show ?case
    by (auto split: sum.splits simp: error_is_TypeError [of "_ :: error"])
qed

lemma js_filter_subseq: "js_filter p xs = Inr ys \<Longrightarrow> subseq ys xs"
  by (induction xs arbitrary: ys) (auto split: sum.splits if_splits)

lemma call_split_fails: "(\<forall>s. v \<noteq> JStr s) \<Longrightarrow> call_split v sep = Inl TypeError"
  by (cases v) simp_all

section \<open>Facts about the methods\<close>

lemma push_urls_map: "push_urls urls locs = urls @ map location_url locs"
  by (induction locs arbitrary: urls) simp_all

lemma getKTHLocationURL_map: "getKTHLocationURL locs = map location_url locs"
  by (simp add: getKTHLocationURL_def push_urls_map)

lemma filter_semester_subseq: "subseq (filter_semester lx k xs) xs"
  by (induction xs arbitrary: k) auto

text \<open>
  \<open>filter\<close> calls \<open>eventBeforeDate\<close> with \<open>this\<close> undefined: the first element raises.
\<close>

lemma js_filter_unbound:
  "js_filter (eventBeforeDate lx None) evs = (if evs = [] then Inr [] else Inl TypeError)"
  by (cases evs) simp_all

lemma map_reservation_fails:
  "(\<forall>s. js_index (columns row) 3 \<noteq> JStr s) \<or> (\<forall>s. js_index (columns row) 4 \<noteq> JStr s)
     \<Longrightarrow> map_reservation lx this row = Inl TypeError"
  by (auto simp: map_reservation_def call_split_fails error_is_TypeError [of "_ :: error"]
      split: sum.splits)

lemma map_reservation_filterEndDate:
  "map_reservation lx (this\<lparr>filterEndDate := a\<rparr>) = map_reservation lx this"
  by (rule ext) (simp add: map_reservation_def cong: sum.case_cong)

lemma map_reservation_filterStartDate:
  "map_reservation lx (this\<lparr>filterStartDate := a\<rparr>) = map_reservation lx this"
  by (rule ext) (simp add: map_reservation_def cong: sum.case_cong)

lemma getCourseEvents_row_fails:
  assumes "row \<in> set rows"
    and "(\<forall>s. js_index (columns row) 3 \<noteq> JStr s) \<or> (\<forall>s. js_index (columns row) 4 \<noteq> JStr s)"
  shows "getCourseEvents lx this \<lparr>reservations = Some rows\<rparr> = Inl TypeError"
proof -
  have "map_reservation lx this row = Inl TypeError"
    using assms(2) by (rule map_reservation_fails)
  with assms(1) have "js_map (map_reservation lx this) rows = Inl TypeError"
    by (rule js_map_fails)
  then show ?thesis
    by (simp add: getCourseEvents_def)
qed

lemma getCourseEvents_all_mapped:
  assumes "getCourseEvents lx this body = Inr evs"
  shows "\<exists>rows mapped. reservations body = Some rows
           \<and> js_map (map_reservation lx this) rows = Inr mapped
           \<and> length mapped = length rows \<and> subseq evs mapped"
proof -
  from assms obtain rows where rows: "reservations body = Some rows"
    by (auto simp: getCourseEvents_def split: option.splits)
  from assms rows obtain mapped
    where mapped: "js_map (map_reservation lx this) rows = Inr mapped"
    by (auto simp: getCourseEvents_def split: sum.splits)
  define sem where
    "sem = (if filterToSemester this then filter_semester lx 0 mapped else mapped)"
  have s1: "subseq sem mapped"
    by (simp add: sem_def filter_semester_subseq)
  have "getCourseEvents lx this body =
      (case (if filterEmpty this then js_filter filterEmptyEvents sem else Inr sem) of
         Inl e \<Rightarrow> Inl e
       | Inr ne \<Rightarrow>
           (if truthy (filterStartDate this) then js_filter (eventBeforeDate lx None) ne
            else Inr ne))"
    by (simp add: getCourseEvents_def rows mapped sem_def)
  with assms obtain ne where
    ne: "(if filterEmpty this then js_filter filterEmptyEvents sem else Inr sem) = Inr ne"
    and fin: "(if truthy (filterStartDate this)
               then js_filter (eventBeforeDate lx None) ne else Inr ne) = Inr evs"
    by (auto split: sum.splits)
  have s2: "subseq ne sem"
    using ne by (auto split: if_splits dest: js_filter_subseq)
  have s3: "subseq evs ne"
    using fin by (auto split: if_splits dest: js_filter_subseq)
  from s1 s2 s3 have "subseq evs mapped"
    by (meson subseq_order.order_trans)
  with rows mapped js_map_length [OF mapped] show ?thesis by blast
qed

section \<open>The semester filter\<close>

text \<open>
  Claim C1. With \<open>DateTime.now()\<close> a valid instant of year \<open>ny\<close> and month \<open>nm\<close>,
  \<open>eventInCurrentKTHPeriod\<close> keeps an event exactly when its \<open>startDate\<close> is valid, its
  year is \<open>ny\<close>, and its month lies in the current period: \<open>{1,...,6}\<close> when
  \<open>1 < nm < 7\<close>, \<open>{8,...,12}\<close> when \<open>7 < nm \<le> 12\<close>, and the empty set otherwise. When
  the evaluation month is exactly 1 or exactly 7 no event passes.
\<close>

theorem eventInCurrentKTHPeriod_period:
  "eventInCurrentKTHPeriod (Valid ny nm nt) event =
     (case startDate event of
        Invalid \<Rightarrow> False
      | Valid y m t \<Rightarrow>
          y = ny \<and>
          m \<in> (if 1 < nm \<and> nm < 7 then {1, 2, 3, 4, 5, 6}
               else if 7 < nm \<and> nm \<le> 12 then {8, 9, 10, 11, 12}
               else {}))
   \<and> \<not> eventInCurrentKTHPeriod (Valid ny 1 nt) event
   \<and> \<not> eventInCurrentKTHPeriod (Valid ny 7 nt) event"
  by (cases "startDate event") (auto simp: eventInCurrentKTHPeriod_def)

text \<open>
  The examples of the specification: evaluated in March, an event of April of the same
  year passes and an event of August fails.
\<close>

lemma eventInCurrentKTHPeriod_examples:
  "eventInCurrentKTHPeriod (Valid 2024 3 nt)
     \<lparr>startDate = Valid 2024 4 t, endDate = e, lecturers = l, location = lo, type = ty\<rparr>"
  "\<not> eventInCurrentKTHPeriod (Valid 2024 3 nt)
     \<lparr>startDate = Valid 2024 8 t, endDate = e, lecturers = l, location = lo, type = ty\<rparr>"
  by (simp_all add: eventInCurrentKTHPeriod_def)

section \<open>The mapping of a reservation\<close>

text \<open>
  Claim C2. A reservation whose \<open>columns\<close> hold strings at positions 3 and 4 and any
  value at position 5 always maps to an event, and the event is a function of the row:
  \<open>startDate\<close> is \<open>fromISO\<close> of \<open>startdate + "T" + starttime\<close>, \<open>endDate\<close> is \<open>fromISO\<close>
  of \<open>enddate + "T" + endtime\<close>, \<open>lecturers\<close> is \<open>columns[3]\<close> split on \<open>", "\<close>,
  \<open>location\<close> is \<open>columns[4]\<close> split on \<open>", "\<close> (or \<open>getKTHLocationURL\<close> of that split when
  \<open>useKTHPlaces\<close> is on), and \<open>type\<close> is \<open>columns[5]\<close> as it is. Equal rows therefore map
  to equal events.
\<close>

theorem map_reservation_valid_row:
  "map_reservation lx this
     \<lparr>startdate = sd, starttime = st, enddate = ed, endtime = et,
      columns = c0 # c1 # c2 # JStr lec # JStr loc # ty # rest\<rparr>
   = Inr \<lparr>startDate = fromISO lx (sd @ ''T'' @ st),
          endDate = fromISO lx (ed @ ''T'' @ et),
          lecturers = js_split lec '', '',
          location = (if useKTHPlaces this then getKTHLocationURL (js_split loc '', '')
                      else js_split loc '', ''),
          type = ty\<rparr>"
  by (simp add: map_reservation_def js_index_def)

section \<open>The empty-field filter\<close>

text \<open>
  Claim C4. On an event whose \<open>type\<close> is a string, as the method's parameter type says,
  \<open>filterEmptyEvents\<close> drops the event exactly when \<open>lecturers\<close> is empty, or \<open>location\<close>
  is empty, or \<open>type\<close> is the empty string: each of the three alone drops it, and an event
  with all three non-empty is kept.
\<close>

theorem filterEmptyEvents_drops:
  "filterEmptyEvents
     \<lparr>startDate = s, endDate = e, lecturers = lec, location = loc, type = JStr t\<rparr>
   = Inr (\<not> (lec = [] \<or> loc = [] \<or> t = ''''))"
  by (simp add: filterEmptyEvents_def)

text \<open>The examples of the specification.\<close>

lemma filterEmptyEvents_examples:
  "filterEmptyEvents \<lparr>startDate = s, endDate = e, lecturers = [],
     location = [''Room1''], type = JStr ''Lecture''\<rparr> = Inr False"
  "filterEmptyEvents \<lparr>startDate = s, endDate = e, lecturers = [''A''],
     location = [''Room1''], type = JStr ''''\<rparr> = Inr False"
  "filterEmptyEvents \<lparr>startDate = s, endDate = e, lecturers = [''A''],
     location = [''Room1''], type = JStr ''Lecture''\<rparr> = Inr True"
  by (simp_all add: filterEmptyEvents_def)

text \<open>
  Claim C5. A reservation whose \<open>columns[3]\<close> is the empty string maps to an event whose
  \<open>lecturers\<close> is the one-element sequence holding the empty string. Its length is 1, so
  the lecturers check of \<open>filterEmptyEvents\<close> does not drop it: whether the event is kept
  depends on its \<open>type\<close> alone.
\<close>

theorem empty_lecturers_column_kept:
  "\<exists>ev. map_reservation lx this
          \<lparr>startdate = sd, starttime = st, enddate = ed, endtime = et,
           columns = c0 # c1 # c2 # JStr '''' # JStr loc # JStr t # rest\<rparr> = Inr ev
        \<and> lecturers ev = ['''']
        \<and> length (lecturers ev) = 1
        \<and> filterEmptyEvents ev = Inr (t \<noteq> '''')"
  using js_split_nonempty [of loc]
  by (simp add: map_reservation_def js_index_def js_split_empty_string filterEmptyEvents_def
      getKTHLocationURL_map)

section \<open>The location URLs\<close>

text \<open>
  Claim C6. \<open>getKTHLocationURL\<close> returns one URL for each location, in order: the
  search URL of www.kth.se with the query set to the location after
  \<open>replace("\<section>", "")\<close>, the facility filter and the English locale. The replacement
  leaves a location without the section sign as it is and removes the first section
  sign of a location that has one. For the location \<open>\<section>Room 1\<close> the URL has the query
  \<open>Room 1\<close> and no section sign occurs in it.
\<close>

theorem getKTHLocationURL_urls:
  "length (getKTHLocationURL locations) = length locations
   \<and> getKTHLocationURL locations =
       map (\<lambda>loc. ''https://www.kth.se/search?q='' @ js_replace loc section_sign ''''
                    @ ''&entityFilter=kth-place&filterLabel=Facilities&lang=en'') locations
   \<and> (\<not> js_includes loc section_sign \<longrightarrow> js_replace loc section_sign '''' = loc)
   \<and> (\<not> js_includes a section_sign \<longrightarrow>
        js_replace (a @ section_sign @ b) section_sign '''' = a @ b)
   \<and> getKTHLocationURL [section_sign @ ''Room 1''] =
       [''https://www.kth.se/search?q=Room 1&entityFilter=kth-place&filterLabel=Facilities&lang=en'']
   \<and> \<not> js_includes
         ''https://www.kth.se/search?q=Room 1&entityFilter=kth-place&filterLabel=Facilities&lang=en''
         section_sign"
proof -
  have 0: "length (getKTHLocationURL locations) = length locations"
    by (simp add: getKTHLocationURL_map)
  have 1: "getKTHLocationURL locations =
       map (\<lambda>loc. ''https://www.kth.se/search?q='' @ js_replace loc section_sign ''''
                    @ ''&entityFilter=kth-place&filterLabel=Facilities&lang=en'') locations"
    by (simp add: getKTHLocationURL_map location_url_def)
  have 2: "getKTHLocationURL [section_sign @ ''Room 1''] =
       [''https://www.kth.se/search?q=Room 1&entityFilter=kth-place&filterLabel=Facilities&lang=en'']"
    by (simp add: getKTHLocationURL_def location_url_def section_sign_def)
  have 3: "\<not> js_includes
         ''https://www.kth.se/search?q=Room 1&entityFilter=kth-place&filterLabel=Facilities&lang=en''
         section_sign"
    by (simp add: section_sign_def)
  have 4: "\<not> js_includes loc section_sign \<longrightarrow> js_replace loc section_sign [] = loc"
    by (simp add: js_replace_absent)
  have 5: "\<not> js_includes a section_sign \<longrightarrow>
        js_replace (a @ section_sign @ b) section_sign [] = a @ b"
    using js_replace_section_first [where rep = "[]"] by simp
  show ?thesis
    by (intro conjI) (fact 0 1 2 3 4 5)+
qed

theorem getKTHLocationURL_urls_witness:
  "\<not> js_includes ''E2'' section_sign
   \<and> js_replace ''E2'' section_sign '''' = ''E2''
   \<and> \<not> js_includes ''Q'' section_sign
   \<and> js_replace (''Q'' @ section_sign @ ''Room 1'') section_sign '''' = ''Q'' @ ''Room 1''
   \<and> length (getKTHLocationURL [''Q'' @ section_sign @ ''Room 1'', ''E2'']) = 2"
proof -
  have h1: "\<not> js_includes ''E2'' section_sign"
    by (simp add: section_sign_def)
  have h2: "\<not> js_includes ''Q'' section_sign"
    by (simp add: section_sign_def)
  note t = getKTHLocationURL_urls
    [of "[''Q'' @ section_sign @ ''Room 1'', ''E2'']" "''E2''" "''Q''" "''Room 1''"]
  from t h1 have c1: "js_replace ''E2'' section_sign '''' = ''E2''"
    by blast
  from t h2 have c2:
    "js_replace (''Q'' @ section_sign @ ''Room 1'') section_sign '''' = ''Q'' @ ''Room 1''"
    by blast
  from t have c3: "length (getKTHLocationURL [''Q'' @ section_sign @ ''Room 1'', ''E2'']) = 2"
    by simp
  from h1 c1 h2 c2 c3 show ?thesis
    by blast
qed

section \<open>The filter pipeline\<close>

text \<open>
  Claim C7. The result of \<open>getCourseEvents\<close> does not depend on \<open>filterEndDate\<close>: two
  clients that differ in that field only return the same result on the same body, with
  the same parsers and clock. \<open>eventAfterDate\<close>, the one reader of the field, is not part
  of the pipeline.
\<close>

theorem getCourseEvents_ignores_filterEndDate:
  "getCourseEvents lx (this\<lparr>filterEndDate := a\<rparr>) body
     = getCourseEvents lx (this\<lparr>filterEndDate := b\<rparr>) body"
  by (simp add: getCourseEvents_def map_reservation_filterEndDate
      cong: sum.case_cong option.case_cong)

text \<open>
  Claim C10. A property left out of the constructor's argument takes its default:
  \<open>filterToSemester\<close> is true, \<open>filterEmpty\<close> and \<open>useKTHPlaces\<close> are false,
  \<open>filterStartDate\<close> and \<open>filterEndDate\<close> are \<open>null\<close>. A client constructed with a
  \<open>baseUrl\<close> only returns the mapped events that pass the semester filter: no other
  filter runs.
\<close>

theorem constructor_defaults:
  "filterToSemester (constructor (opts\<lparr>arg_filterToSemester := None\<rparr>)) = True
   \<and> filterEmpty (constructor (opts\<lparr>arg_filterEmpty := None\<rparr>)) = False
   \<and> useKTHPlaces (constructor (opts\<lparr>arg_useKTHPlaces := None\<rparr>)) = False
   \<and> filterStartDate (constructor (opts\<lparr>arg_startDate := None\<rparr>)) = None
   \<and> filterEndDate (constructor (opts\<lparr>arg_endDate := None\<rparr>)) = None
   \<and> constructor \<lparr>arg_baseUrl = Some url, arg_filterEmpty = None,
        arg_filterToSemester = None, arg_startDate = None, arg_endDate = None,
        arg_useKTHPlaces = None\<rparr>
      = \<lparr>baseUrl = Some url, filterEmpty = False, filterStartDate = None,
         filterEndDate = None, filterToSemester = True, useKTHPlaces = False\<rparr>
   \<and> getCourseEvents lx
        (constructor \<lparr>arg_baseUrl = Some url, arg_filterEmpty = None,
           arg_filterToSemester = None, arg_startDate = None, arg_endDate = None,
           arg_useKTHPlaces = None\<rparr>) body
      = (case reservations body of
           None \<Rightarrow> Inl TypeError
         | Some rows \<Rightarrow>
             (case js_map (map_reservation lx
                     \<lparr>baseUrl = Some url, filterEmpty = False, filterStartDate = None,
                      filterEndDate = None, filterToSemester = True,
                      useKTHPlaces = False\<rparr>) rows of
                Inl e \<Rightarrow> Inl e
              | Inr mapped \<Rightarrow> Inr (filter_semester lx 0 mapped)))"
  by (simp add: getCourseEvents_def constructor_def default_to_def
      cong: sum.case_cong option.case_cong)

section \<open>Malformed data\<close>

text \<open>
  Claim C8 as the code has it. \<open>getCourseEvents\<close> raises a \<open>TypeError\<close> when the body has
  no \<open>reservations\<close> array, and when some row has no string at position 3 or at
  position 4 of its \<open>columns\<close>. Whenever it returns a list, every row was mapped and the
  list is drawn, in order, from the events of all the rows: there are no partial results.
  A row that lacks position 5 only is not an error: it maps to an event whose \<open>type\<close> is
  \<open>undefined\<close>.
\<close>

theorem getCourseEvents_malformed:
  "getCourseEvents lx this \<lparr>reservations = None\<rparr> = Inl TypeError
   \<and> (row \<in> set rows
        \<and> ((\<forall>s. js_index (columns row) 3 \<noteq> JStr s) \<or> (\<forall>s. js_index (columns row) 4 \<noteq> JStr s))
      \<longrightarrow> getCourseEvents lx this \<lparr>reservations = Some rows\<rparr> = Inl TypeError)
   \<and> (getCourseEvents lx this body = Inr evs
      \<longrightarrow> (\<exists>all_rows mapped.
             reservations body = Some all_rows
             \<and> js_map (map_reservation lx this) all_rows = Inr mapped
             \<and> length mapped = length all_rows
             \<and> subseq evs mapped))
   \<and> map_reservation lx this
        \<lparr>startdate = sd, starttime = st, enddate = ed, endtime = et,
         columns = [c0, c1, c2, JStr lec, JStr loc]\<rparr>
      = Inr \<lparr>startDate = fromISO lx (sd @ ''T'' @ st),
             endDate = fromISO lx (ed @ ''T'' @ et),
             lecturers = js_split lec '', '',
             location = (if useKTHPlaces this then getKTHLocationURL (js_split loc '', '')
                         else js_split loc '', ''),
             type = JUndefined\<rparr>"
proof -
  have 1: "getCourseEvents lx this \<lparr>reservations = None\<rparr> = Inl TypeError"
    by (simp add: getCourseEvents_def)
  have 2: "row \<in> set rows
        \<and> ((\<forall>s. js_index (columns row) 3 \<noteq> JStr s) \<or> (\<forall>s. js_index (columns row) 4 \<noteq> JStr s))
      \<longrightarrow> getCourseEvents lx this \<lparr>reservations = Some rows\<rparr> = Inl TypeError"
    using getCourseEvents_row_fails [of row rows lx this] by blast
  have 3: "getCourseEvents lx this body = Inr evs
      \<longrightarrow> (\<exists>all_rows mapped.
             reservations body = Some all_rows
             \<and> js_map (map_reservation lx this) all_rows = Inr mapped
             \<and> length mapped = length all_rows
             \<and> subseq evs mapped)"
    using getCourseEvents_all_mapped [of lx this body evs] by blast
  have 4: "map_reservation lx this
        \<lparr>startdate = sd, starttime = st, enddate = ed, endtime = et,
         columns = [c0, c1, c2, JStr lec, JStr loc]\<rparr>
      = Inr \<lparr>startDate = fromISO lx (sd @ ''T'' @ st),
             endDate = fromISO lx (ed @ ''T'' @ et),
             lecturers = js_split lec '', '',
             location = (if useKTHPlaces this then getKTHLocationURL (js_split loc '', '')
                         else js_split loc '', ''),
             type = JUndefined\<rparr>"
    by (simp add: map_reservation_def js_index_def)
  show ?thesis
    by (intro conjI) (fact 1 2 3 4)+
qed

text \<open>
  An instance: in March 2024, with the client of the demo driver, a feed of one complete
  row returns its event; with a second row of three columns after it the call raises
  and returns nothing.
\<close>

theorem getCourseEvents_malformed_witness:
  "reservation_on ''2024-03-05'' short_columns
     \<in> set [reservation_on ''2024-03-04'' lecture_columns,
             reservation_on ''2024-03-05'' short_columns]
   \<and> (\<forall>s. js_index (columns (reservation_on ''2024-03-05'' short_columns)) 3 \<noteq> JStr s)
   \<and> getCourseEvents in_march demo_client
        \<lparr>reservations = Some [reservation_on ''2024-03-04'' lecture_columns,
                               reservation_on ''2024-03-05'' short_columns]\<rparr>
      = Inl TypeError
   \<and> getCourseEvents in_march demo_client
        \<lparr>reservations = Some [reservation_on ''2024-03-04'' lecture_columns]\<rparr>
      = Inr [\<lparr>startDate = Valid 2024 3 1709547300000, endDate = Valid 2024 3 1709553600000,
              lecturers = [''A. Teacher''], location = [''E1''], type = JStr ''Lecture''\<rparr>]
   \<and> (\<exists>mapped.
         js_map (map_reservation in_march demo_client)
           [reservation_on ''2024-03-04'' lecture_columns] = Inr mapped
         \<and> length mapped = 1
         \<and> subseq [\<lparr>startDate = Valid 2024 3 1709547300000,
                      endDate = Valid 2024 3 1709553600000,
                      lecturers = [''A. Teacher''], location = [''E1''],
                      type = JStr ''Lecture''\<rparr>] mapped)"
  (is "?mem \<and> ?nostr \<and> ?fails \<and> ?returns \<and> ?all")
proof -
  have mem: ?mem
    by simp
  have nostr: ?nostr
    by (simp add: reservation_on_def short_columns_def js_index_def)
  have returns: ?returns
    by (simp add: getCourseEvents_def map_reservation_def js_index_def js_split_def
        split_from.simps eventInCurrentKTHPeriod_def filterEmptyEvents_def
        demo_client_def constructor_def default_to_def reservation_on_def
        lecture_columns_def in_march_def utc_luxon_def utc_datetime_def utc_date_def
        utc_time_def digit_val_def days_in_month_def days_from_civil_def)
  note t = getCourseEvents_malformed
    [of in_march demo_client "reservation_on ''2024-03-05'' short_columns"
        "[reservation_on ''2024-03-04'' lecture_columns,
          reservation_on ''2024-03-05'' short_columns]"
        "\<lparr>reservations = Some [reservation_on ''2024-03-04'' lecture_columns]\<rparr>"
        "[\<lparr>startDate = Valid 2024 3 1709547300000, endDate = Valid 2024 3 1709553600000,
           lecturers = [''A. Teacher''], location = [''E1''], type = JStr ''Lecture''\<rparr>]"]
  from t mem nostr have fails: ?fails
    by blast
  from t returns have "\<exists>all_rows mapped.
      reservations \<lparr>reservations = Some [reservation_on ''2024-03-04'' lecture_columns]\<rparr>
        = Some all_rows
      \<and> js_map (map_reservation in_march demo_client) all_rows = Inr mapped
      \<and> length mapped = length all_rows
      \<and> subseq [\<lparr>startDate = Valid 2024 3 1709547300000,
                   endDate = Valid 2024 3 1709553600000,
                   lecturers = [''A. Teacher''], location = [''E1''],
                   type = JStr ''Lecture''\<rparr>] mapped"
    by blast
  then have all: ?all
    by auto
  from mem nostr fails returns all show ?thesis
    by blast
qed

text \<open>
  Claim C8 as the specification states it fails at a row that lacks position 5: the call
  returns the event, with \<open>type\<close> undefined, and the empty-field filter of the demo client
  keeps it.
\<close>

theorem missing_type_column_counterexample:
  "js_index (columns (reservation_on ''2024-03-04'' untyped_columns)) 5 = JUndefined
   \<and> getCourseEvents in_march demo_client
        \<lparr>reservations = Some [reservation_on ''2024-03-04'' untyped_columns]\<rparr>
      = Inr [\<lparr>startDate = Valid 2024 3 1709547300000, endDate = Valid 2024 3 1709553600000,
              lecturers = [''A. Teacher''], location = [''E1''], type = JUndefined\<rparr>]"
  by (simp add: getCourseEvents_def map_reservation_def js_index_def js_split_def
      split_from.simps eventInCurrentKTHPeriod_def filterEmptyEvents_def
      demo_client_def constructor_def default_to_def reservation_on_def
      untyped_columns_def in_march_def utc_luxon_def utc_datetime_def utc_date_def
      utc_time_def digit_val_def days_in_month_def days_from_civil_def)

section \<open>The start-date filter\<close>

text \<open>
  What \<open>eventBeforeDate\<close> computes when it is called on a client: it keeps an event
  exactly when its \<open>endDate\<close> is strictly before \<open>fromSQL\<close> of \<open>filterStartDate\<close>. With
  \<open>filterStartDate = "2024-01-01"\<close> an event ending on 2023-12-31 is kept and an event
  ending on 2024-01-02 is not.
\<close>

lemma eventBeforeDate_bound:
  "eventBeforeDate lx (Some this) event
     = Inr (dt_less (endDate event) (fromSQL lx (filterStartDate this)))"
  by simp

lemma eventBeforeDate_bound_examples:
  "eventBeforeDate in_march (Some (demo_client\<lparr>filterStartDate := Some ''2024-01-01''\<rparr>))
     \<lparr>startDate = fromISO in_march ''2023-12-31T10:15'',
      endDate = fromISO in_march ''2023-12-31T12:00'',
      lecturers = l, location = lo, type = ty\<rparr> = Inr True"
  "eventBeforeDate in_march (Some (demo_client\<lparr>filterStartDate := Some ''2024-01-01''\<rparr>))
     \<lparr>startDate = fromISO in_march ''2024-01-02T10:15'',
      endDate = fromISO in_march ''2024-01-02T12:00'',
      lecturers = l, location = lo, type = ty\<rparr> = Inr False"
  by (simp_all add: in_march_def utc_luxon_def dt_less_def utc_datetime_def utc_date_def
      utc_time_def digit_val_def days_in_month_def days_from_civil_def)

text \<open>
  Claim C3 at a concrete input. The pipeline hands \<open>this.eventBeforeDate\<close> to \<open>filter\<close>
  without its client, so the predicate reads \<open>filterStartDate\<close> of \<open>undefined\<close>: with
  \<open>filterStartDate = "2024-01-01"\<close>, the semester filter off and one event ending on
  2023-12-31, \<open>getCourseEvents\<close> raises a \<open>TypeError\<close> where the claim has the event kept.
\<close>

theorem getCourseEvents_filterStartDate_raises:
  "getCourseEvents in_march
     (constructor \<lparr>arg_baseUrl = Some ''https://cloud.timeedit.net/kth/web/public01/'',
        arg_filterEmpty = None, arg_filterToSemester = Some False,
        arg_startDate = Some ''2024-01-01'', arg_endDate = None, arg_useKTHPlaces = None\<rparr>)
     \<lparr>reservations = Some [reservation_on ''2023-12-31'' lecture_columns]\<rparr>
   = Inl TypeError"
  by (simp add: getCourseEvents_def map_reservation_def js_index_def js_split_def
      split_from.simps constructor_def default_to_def reservation_on_def
      lecture_columns_def)

text \<open>
  Claim C9 as the code has it. When \<open>filterStartDate\<close> is truthy, \<open>getCourseEvents\<close>
  never returns a non-empty list. Compared with the same client without
  \<open>filterStartDate\<close>: where that call raises, this one raises; where it returns at
  least one event, this one raises a \<open>TypeError\<close>, since \<open>filter\<close> calls
  \<open>eventBeforeDate\<close> with \<open>this\<close> undefined; where it returns no event, \<open>filter\<close> never
  calls the predicate and this call returns the empty list.
\<close>

theorem getCourseEvents_unbound_eventBeforeDate:
  assumes "truthy (filterStartDate this)"
  shows "getCourseEvents lx this body =
     (case getCourseEvents lx (this\<lparr>filterStartDate := None\<rparr>) body of
        Inl e \<Rightarrow> Inl e
      | Inr evs \<Rightarrow> if evs = [] then Inr [] else Inl TypeError)"
  using assms
  by (simp add: getCourseEvents_def map_reservation_filterStartDate js_filter_unbound Let_def
      split: option.splits sum.splits)

text \<open>
  An instance: in March 2024, the demo client with \<open>filterStartDate = "2024-06-30"\<close> and
  one lecture of March, which passes the two other filters.
\<close>

theorem getCourseEvents_unbound_eventBeforeDate_witness:
  "truthy (filterStartDate (demo_client\<lparr>filterStartDate := Some ''2024-06-30''\<rparr>))
   \<and> getCourseEvents in_march demo_client
        \<lparr>reservations = Some [reservation_on ''2024-03-04'' lecture_columns]\<rparr>
      = Inr [\<lparr>startDate = Valid 2024 3 1709547300000, endDate = Valid 2024 3 1709553600000,
              lecturers = [''A. Teacher''], location = [''E1''], type = JStr ''Lecture''\<rparr>]
   \<and> getCourseEvents in_march (demo_client\<lparr>filterStartDate := Some ''2024-06-30''\<rparr>)
        \<lparr>reservations = Some [reservation_on ''2024-03-04'' lecture_columns]\<rparr>
      = Inl TypeError"
  (is "?truthy \<and> ?without \<and> ?with")
proof -
  have truthy: ?truthy
    by simp
  have without: ?without
    by (simp add: getCourseEvents_def map_reservation_def js_index_def js_split_def
        split_from.simps eventInCurrentKTHPeriod_def filterEmptyEvents_def
        demo_client_def constructor_def default_to_def reservation_on_def
        lecture_columns_def in_march_def utc_luxon_def utc_datetime_def utc_date_def
        utc_time_def digit_val_def days_in_month_def days_from_civil_def)
  have same: "demo_client\<lparr>filterStartDate := Some ''2024-06-30'', filterStartDate := None\<rparr>
      = demo_client"
    by (simp add: demo_client_def constructor_def default_to_def)
  from getCourseEvents_unbound_eventBeforeDate [OF truthy]
  have "?with"
    by (simp add: same without)
  with truthy without show ?thesis
    by blast
qed

text \<open>
  Claim C9 as stated fails when no event reaches the start-date filter. Evaluated in
  July, the semester filter of a client constructed with a \<open>baseUrl\<close> and
  \<open>startDate = "2024-01-01"\<close> drops every event, and the call returns the empty list.
\<close>

theorem filterStartDate_returns_counterexample:
  "truthy (filterStartDate
      (constructor \<lparr>arg_baseUrl = Some ''https://cloud.timeedit.net/kth/web/public01/'',
         arg_filterEmpty = None, arg_filterToSemester = None,
         arg_startDate = Some ''2024-01-01'', arg_endDate = None,
         arg_useKTHPlaces = None\<rparr>))
   \<and> getCourseEvents in_july
        (constructor \<lparr>arg_baseUrl = Some ''https://cloud.timeedit.net/kth/web/public01/'',
           arg_filterEmpty = None, arg_filterToSemester = None,
           arg_startDate = Some ''2024-01-01'', arg_endDate = None,
           arg_useKTHPlaces = None\<rparr>)
        \<lparr>reservations = Some [reservation_on ''2023-12-31'' lecture_columns]\<rparr>
      = Inr []"
  by (simp add: getCourseEvents_def constructor_def default_to_def map_reservation_def
      js_index_def js_split_def split_from.simps eventInCurrentKTHPeriod_def
      includes_num_Nil reservation_on_def lecture_columns_def in_july_def utc_luxon_def)

end
